theory Spec2Isabelle
  imports Complex_Main "HOL-Library.Sublist"
begin

section \<open>The permission-boundary scanner of \<^verbatim>\<open>gum.py\<close>\<close>

text \<open>
  A shallow embedding of the class \<^verbatim>\<open>AWSAccountScanner\<close>. The three AWS services the
  scanner talks to (Organizations, STS, IAM) and the clock are parameters of the model:
  each function receives the answers of the outside world as arguments and returns the
  Python value it computes, together with the requests it sent where a property is about
  them.
\<close>

subsection \<open>Python values\<close>

text \<open>
  Every handler of the source is \<^verbatim>\<open>except Exception as e\<close> and uses the exception only
  through \<^verbatim>\<open>str(e)\<close>, so an exception is modelled by its message. The model covers the
  instances of Python's class \<^verbatim>\<open>Exception\<close>; the interpreter's signals outside this
  class (\<^verbatim>\<open>KeyboardInterrupt\<close>, \<^verbatim>\<open>SystemExit\<close>) are not raised by the services and are
  left out.
\<close>

datatype py_exc = Exception string

fun str_exc :: "py_exc \<Rightarrow> string" where
  "str_exc (Exception msg) = msg"

text \<open>\<^verbatim>\<open>d[k]\<close> on a dictionary: a missing key raises \<^verbatim>\<open>KeyError(k)\<close>, whose \<^verbatim>\<open>str\<close> is
  the key between single quotes.\<close>

definition KeyError :: "string \<Rightarrow> py_exc" where
  "KeyError k = Exception ([CHR 0x27] @ k @ [CHR 0x27])"

definition getitem :: "(string \<rightharpoonup> 'v) \<Rightarrow> string \<Rightarrow> py_exc + 'v" where
  "getitem d k = (case d k of None \<Rightarrow> Inl (KeyError k) | Some v \<Rightarrow> Inr v)"

text \<open>\<^verbatim>\<open>xs[-1]\<close> on a list: the last element, \<^verbatim>\<open>IndexError\<close> on the empty list.\<close>

definition getitem_last :: "'a list \<Rightarrow> py_exc + 'a" where
  "getitem_last xs =
     (if xs = [] then Inl (Exception ''list index out of range'') else Inr (last xs))"

text \<open>\<^verbatim>\<open>s.split(c)\<close> for a separator of one character: the pieces between the
  occurrences of \<^verbatim>\<open>c\<close>, empty pieces kept, so the result is never empty.\<close>

fun split :: "string \<Rightarrow> char \<Rightarrow> string list" where
  "split [] c = [[]]"
| "split (x # xs) c =
     (if x = c then [] # split xs c
      else (case split xs c of
              [] \<Rightarrow> [[x]]
            | w # ws \<Rightarrow> (x # w) # ws))"

text \<open>\<^verbatim>\<open>str(n)\<close> and \<^verbatim>\<open>f"{n}"\<close> for an integer: its decimal digits, with a minus sign
  when negative.\<close>

definition digit_char :: "nat \<Rightarrow> char" where
  "digit_char d = char_of (48 + d)"

function str_nat :: "nat \<Rightarrow> string" where
  "str_nat n = (if n < 10 then [digit_char n] else str_nat (n div 10) @ [digit_char (n mod 10)])"
  by pat_completeness auto
termination
  by (relation "measure (\<lambda>n. n)") auto

declare str_nat.simps [simp del]

definition str_int :: "int \<Rightarrow> string" where
  "str_int i = (if i < 0 then CHR ''-'' # str_nat (nat (- i)) else str_nat (nat i))"

text \<open>\<^verbatim>\<open>int(x)\<close> on a float truncates towards zero. The clock reading is taken as a
  real number; every float is one.\<close>

definition int_of_float :: "real \<Rightarrow> int" where
  "int_of_float x = (if 0 \<le> x then \<lfloor>x\<rfloor> else \<lceil>x\<rceil>)"

text \<open>An iterator as the \<^verbatim>\<open>for\<close> loop meets it: it ends, yields an item and goes on, or
  raises while the next item is fetched.\<close>

datatype 'a py_iter = StopIteration | Yield 'a "'a py_iter" | Raises py_exc

subsection \<open>Data\<close>

text \<open>\<^verbatim>\<open>RoleInfo\<close>, lines 25 to 30.\<close>

record RoleInfo =
  account_id :: string
  account_name :: string
  role_name :: string
  has_permission_boundary :: string

text \<open>The dictionary \<^verbatim>\<open>get_all_active_accounts\<close> builds for an account (lines 53 to 57):
  always the three keys \<^verbatim>\<open>Id\<close>, \<^verbatim>\<open>Name\<close> and \<^verbatim>\<open>Email\<close>.\<close>

record account =
  acc_Id :: string
  acc_Name :: string
  acc_Email :: string

text \<open>A role as IAM lists it: a dictionary whose key \<^verbatim>\<open>RoleName\<close> holds a string and
  whose key \<^verbatim>\<open>PermissionsBoundary\<close>, when present, holds a dictionary of strings.
  \<open>None\<close> is an absent key.\<close>

record role =
  RoleName :: "string option"
  PermissionsBoundary :: "(string \<rightharpoonup> string) option"

type_synonym roles_page = "string \<rightharpoonup> role list"

text \<open>\<^verbatim>\<open>boto3.Session\<close> built from the three credentials (lines 78 to 82).\<close>

record session =
  aws_access_key_id :: string
  aws_secret_access_key :: string
  aws_session_token :: string

type_synonym sts_response = "string \<rightharpoonup> (string \<rightharpoonup> string)"

text \<open>The scanner object (lines 33 to 40). The lock and the boto3 clients hold no data of
  the model.\<close>

record scanner =
  target_permission_boundary :: string
  role_to_assume :: string
  results :: "RoleInfo list"

definition init :: "string \<Rightarrow> string \<Rightarrow> scanner" where
  "init tgt rl = \<lparr>target_permission_boundary = tgt, role_to_assume = rl, results = []\<rparr>"

text \<open>The outside world as one account's task meets it: the reading of \<^verbatim>\<open>time.time()\<close>,
  the answer of STS to \<^verbatim>\<open>assume_role(RoleArn, RoleSessionName)\<close>, and the pages the IAM
  paginator of a session yields. A \<open>Raises\<close> at the head of the pages also stands for a
  failure of \<^verbatim>\<open>assumed_session.client('iam')\<close>: the same handler catches both.\<close>

record env =
  time_time :: real
  sts_assume_role :: "string \<Rightarrow> string \<Rightarrow> py_exc + sts_response"
  iam_list_roles :: "session \<Rightarrow> roles_page py_iter"

text \<open>The requests a task sends.\<close>

datatype api_call = STS_AssumeRole string string | IAM_ListRoles session

subsection \<open>The classifier, lines 122 to 126\<close>

text \<open>The boundary reference of a role: absent when the role has no key
  \<^verbatim>\<open>PermissionsBoundary\<close> (line 122), else
  \<^verbatim>\<open>role['PermissionsBoundary']['PermissionsBoundaryArn']\<close> (line 123).\<close>

definition boundary_reference :: "role \<Rightarrow> py_exc + string option" where
  "boundary_reference r =
     (case PermissionsBoundary r of
        None \<Rightarrow> Inr None
      | Some pb \<Rightarrow>
          (case getitem pb ''PermissionsBoundaryArn'' of
             Inl e \<Rightarrow> Inl e
           | Inr boundary_arn \<Rightarrow> Inr (Some boundary_arn)))"

text \<open>Lines 124 to 126: \<^verbatim>\<open>boundary_arn.split('/')[-1] == self.target_permission_boundary\<close>;
  a role without a reference never reaches the comparison.\<close>

definition classify :: "string option \<Rightarrow> string \<Rightarrow> py_exc + bool" where
  "classify boundary_ref tgt =
     (case boundary_ref of
        None \<Rightarrow> Inr False
      | Some boundary_arn \<Rightarrow>
          (case getitem_last (split boundary_arn (CHR ''/'')) of
             Inl e \<Rightarrow> Inl e
           | Inr boundary_name \<Rightarrow> Inr (boundary_name = tgt)))"

text \<open>The trailing path segment in the spec's words: what follows the last \<^verbatim>\<open>/\<close>, the
  whole reference when it has none.\<close>

definition trailing_segment :: "string \<Rightarrow> string" where
  "trailing_segment s = rev (takeWhile (\<lambda>c. c \<noteq> CHR ''/'') (rev s))"

subsection \<open>\<^verbatim>\<open>get_all_active_accounts\<close>, lines 42 to 64\<close>

text \<open>A page of the Organizations paginator: a dictionary whose key \<^verbatim>\<open>Accounts\<close> holds
  a list of dictionaries of strings.\<close>

type_synonym accounts_page = "string \<rightharpoonup> (string \<rightharpoonup> string) list"

text \<open>What the scanner prints with \<^verbatim>\<open>console.print\<close>, as far as the model follows it.\<close>

datatype console_msg =
    Fetching_accounts
  | Found_active_accounts nat
  | Error_fetching_accounts string
  | No_accounts_found
  | Starting_scan nat int
  | Scan_completed_successfully
  | Scan_failed_or_no_results

text \<open>The inner loop, lines 51 to 57. The dictionary literal reads \<^verbatim>\<open>Id\<close>, \<^verbatim>\<open>Name\<close> and
  \<^verbatim>\<open>Email\<close> in this order.\<close>

fun page_accounts :: "(string \<rightharpoonup> string) list \<Rightarrow> account list \<Rightarrow> py_exc + account list" where
  "page_accounts [] accounts = Inr accounts"
| "page_accounts (a # rest) accounts =
     (case getitem a ''Status'' of
        Inl e \<Rightarrow> Inl e
      | Inr status \<Rightarrow>
          if status = ''ACTIVE'' then
            (case getitem a ''Id'' of
               Inl e \<Rightarrow> Inl e
             | Inr i \<Rightarrow>
                 (case getitem a ''Name'' of
                    Inl e \<Rightarrow> Inl e
                  | Inr n \<Rightarrow>
                      (case getitem a ''Email'' of
                         Inl e \<Rightarrow> Inl e
                       | Inr m \<Rightarrow>
                           page_accounts rest
                             (accounts @ [\<lparr>acc_Id = i, acc_Name = n, acc_Email = m\<rparr>]))))
          else page_accounts rest accounts)"

text \<open>The outer loop, line 50.\<close>

fun paginate_accounts :: "accounts_page py_iter \<Rightarrow> account list \<Rightarrow> py_exc + account list" where
  "paginate_accounts StopIteration accounts = Inr accounts"
| "paginate_accounts (Raises e) accounts = Inl e"
| "paginate_accounts (Yield page rest) accounts =
     (case getitem page ''Accounts'' of
        Inl e \<Rightarrow> Inl e
      | Inr listed \<Rightarrow>
          (case page_accounts listed accounts of
             Inl e \<Rightarrow> Inl e
           | Inr accounts' \<Rightarrow> paginate_accounts rest accounts'))"

text \<open>The function: the accounts and what it printed. An exception anywhere gives the
  empty list (lines 62 to 64).\<close>

definition get_all_active_accounts :: "accounts_page py_iter \<Rightarrow> account list \<times> console_msg list" where
  "get_all_active_accounts directory =
     (case paginate_accounts directory [] of
        Inr accounts \<Rightarrow> (accounts, [Fetching_accounts, Found_active_accounts (length accounts)])
      | Inl e \<Rightarrow> ([], [Fetching_accounts, Error_fetching_accounts (str_exc e)]))"

subsection \<open>\<^verbatim>\<open>assume_role_in_account\<close>, lines 66 to 88\<close>

definition role_arn :: "scanner \<Rightarrow> string \<Rightarrow> string" where
  "role_arn self aid = ''arn:aws:iam::'' @ aid @ '':role/'' @ role_to_assume self"

definition role_session_name :: "real \<Rightarrow> string" where
  "role_session_name now = ''permission-boundary-scan-'' @ str_int (int_of_float now)"

text \<open>The body of the \<^verbatim>\<open>try\<close>, lines 69 to 84.\<close>

definition assume_role_try :: "scanner \<Rightarrow> env \<Rightarrow> string \<Rightarrow> py_exc + session" where
  "assume_role_try self w aid =
     (case sts_assume_role w (role_arn self aid) (role_session_name (time_time w)) of
        Inl e \<Rightarrow> Inl e
      | Inr response \<Rightarrow>
          (case getitem response ''Credentials'' of
             Inl e \<Rightarrow> Inl e
           | Inr credentials \<Rightarrow>
               (case getitem credentials ''AccessKeyId'' of
                  Inl e \<Rightarrow> Inl e
                | Inr ak \<Rightarrow>
                    (case getitem credentials ''SecretAccessKey'' of
                       Inl e \<Rightarrow> Inl e
                     | Inr sk \<Rightarrow>
                         (case getitem credentials ''SessionToken'' of
                            Inl e \<Rightarrow> Inl e
                          | Inr tok \<Rightarrow>
                              Inr \<lparr>aws_access_key_id = ak, aws_secret_access_key = sk,
                                   aws_session_token = tok\<rparr>)))))"

text \<open>The function: \<^verbatim>\<open>except Exception\<close> returns \<^verbatim>\<open>None\<close> (lines 86 to 88). The second
  component is the request sent to STS.\<close>

definition assume_role_in_account :: "scanner \<Rightarrow> env \<Rightarrow> string \<Rightarrow> session option \<times> api_call list" where
  "assume_role_in_account self w aid =
     ((case assume_role_try self w aid of Inl e \<Rightarrow> None | Inr s \<Rightarrow> Some s),
      [STS_AssumeRole (role_arn self aid) (role_session_name (time_time w))])"

subsection \<open>\<^verbatim>\<open>scan_account_roles\<close>, lines 90 to 153\<close>

text \<open>The inner loop, lines 117 to 132, on the pair of \<^verbatim>\<open>total_roles\<close> and
  \<^verbatim>\<open>roles_with_boundary\<close>. Line 118 counts the role before line 119 reads its name, but
  the count of a listing that raises is never used.\<close>

fun scan_roles ::
  "string \<Rightarrow> string \<Rightarrow> string \<Rightarrow> role list \<Rightarrow> nat \<times> RoleInfo list \<Rightarrow> py_exc + nat \<times> RoleInfo list" where
  "scan_roles tgt aid aname [] st = Inr st"
| "scan_roles tgt aid aname (r # rest) (total_roles, roles_with_boundary) =
     (case RoleName r of
        None \<Rightarrow> Inl (KeyError ''RoleName'')
      | Some rname \<Rightarrow>
          (case boundary_reference r of
             Inl e \<Rightarrow> Inl e
           | Inr boundary_ref \<Rightarrow>
               (case classify boundary_ref tgt of
                  Inl e \<Rightarrow> Inl e
                | Inr True \<Rightarrow>
                    scan_roles tgt aid aname rest
                      (total_roles + 1,
                       roles_with_boundary @
                         [\<lparr>account_id = aid, account_name = aname, role_name = rname,
                           has_permission_boundary = ''Exists''\<rparr>])
                | Inr False \<Rightarrow>
                    scan_roles tgt aid aname rest (total_roles + 1, roles_with_boundary))))"

text \<open>The outer loop, line 116.\<close>

fun paginate_roles ::
  "string \<Rightarrow> string \<Rightarrow> string \<Rightarrow> roles_page py_iter \<Rightarrow> nat \<times> RoleInfo list \<Rightarrow> py_exc + nat \<times> RoleInfo list" where
  "paginate_roles tgt aid aname StopIteration st = Inr st"
| "paginate_roles tgt aid aname (Raises e) st = Inl e"
| "paginate_roles tgt aid aname (Yield page rest) st =
     (case getitem page ''Roles'' of
        Inl e \<Rightarrow> Inl e
      | Inr roles \<Rightarrow>
          (case scan_roles tgt aid aname roles st of
             Inl e \<Rightarrow> Inl e
           | Inr st' \<Rightarrow> paginate_roles tgt aid aname rest st'))"

definition ACCESS_DENIED :: "account \<Rightarrow> RoleInfo" where
  "ACCESS_DENIED a =
     \<lparr>account_id = acc_Id a, account_name = acc_Name a, role_name = ''ACCESS_DENIED'',
      has_permission_boundary = ''N/A''\<rparr>"

definition NO_ROLES_WITH_BOUNDARY :: "account \<Rightarrow> nat \<Rightarrow> RoleInfo" where
  "NO_ROLES_WITH_BOUNDARY a total_roles =
     \<lparr>account_id = acc_Id a, account_name = acc_Name a,
      role_name = ''NO_ROLES_WITH_BOUNDARY ('' @ str_nat total_roles @ '' total roles)'',
      has_permission_boundary = ''Missing''\<rparr>"

definition ERROR :: "account \<Rightarrow> py_exc \<Rightarrow> RoleInfo" where
  "ERROR a e =
     \<lparr>account_id = acc_Id a, account_name = acc_Name a,
      role_name = ''ERROR: '' @ take 50 (str_exc e) @ ''...'',
      has_permission_boundary = ''Error''\<rparr>"

text \<open>The function: the records it returns and the requests it sent. \<^verbatim>\<open>account_results\<close>
  is written once on each path (lines 101, 136, 143, 146), and the handler of line 145
  finds it empty: the matches of a listing that fails are in \<^verbatim>\<open>roles_with_boundary\<close>
  only.\<close>

definition scan_account_roles :: "scanner \<Rightarrow> env \<Rightarrow> account \<Rightarrow> RoleInfo list \<times> api_call list" where
  "scan_account_roles self w a =
     (case assume_role_in_account self w (acc_Id a) of
        (None, calls) \<Rightarrow> ([ACCESS_DENIED a], calls)
      | (Some assumed_session, calls) \<Rightarrow>
          (case paginate_roles (target_permission_boundary self) (acc_Id a) (acc_Name a)
                  (iam_list_roles w assumed_session) (0, []) of
             Inl e \<Rightarrow> ([ERROR a e], calls @ [IAM_ListRoles assumed_session])
           | Inr (total_roles, roles_with_boundary) \<Rightarrow>
               (if roles_with_boundary = [] then [NO_ROLES_WITH_BOUNDARY a total_roles]
                else roles_with_boundary,
                calls @ [IAM_ListRoles assumed_session])))"

subsection \<open>\<^verbatim>\<open>worker\<close> and \<^verbatim>\<open>scan_all_accounts\<close>, lines 155 to 163 and 225 to 288\<close>

text \<open>The worker: the scan, then under the lock the extension of \<^verbatim>\<open>self.results\<close> and the
  advance of the progress counter. It returns its records, the scanner and the counter.\<close>

definition worker :: "scanner \<Rightarrow> env \<Rightarrow> account \<Rightarrow> nat \<Rightarrow> RoleInfo list \<times> scanner \<times> nat" where
  "worker self w a progress =
     (let rs = fst (scan_account_roles self w a)
      in (rs, self\<lparr>results := results self @ rs\<rparr>, progress + 1))"

text \<open>The pool. The workers share nothing but \<^verbatim>\<open>self.results\<close> and the counter, which
  they touch under the lock only, so a run is decided by the order in which the workers
  take the lock. The schedule chooses it: each number picks one of the tasks still
  pending, and when the schedule ends the rest follows in the order of submission. Every
  schedule gives a permutation of the submitted tasks; the pool size only rules some of
  them out.\<close>

fun completion_order :: "nat list \<Rightarrow> 'a list \<Rightarrow> 'a list" where
  "completion_order [] pending = pending"
| "completion_order (c # sched) pending =
     (if pending = [] then []
      else (let k = c mod length pending
            in (pending ! k) # completion_order sched (take k pending @ drop (Suc k) pending)))"

definition run_workers :: "(account \<Rightarrow> env) \<Rightarrow> account list \<Rightarrow> scanner \<times> nat \<Rightarrow> scanner \<times> nat" where
  "run_workers envs order st =
     foldl (\<lambda>(self, progress) a. snd (worker self (envs a) a progress)) st order"

text \<open>What a call of \<^verbatim>\<open>scan_all_accounts\<close> leaves: the value returned (\<open>Inl\<close> an exception
  that escapes, \<open>Inr None\<close> the bare \<^verbatim>\<open>return\<close> of line 233), the scanner, the tasks
  submitted to the pool, the progress counter and the console.\<close>

record run =
  returned :: "py_exc + RoleInfo list option"
  scanner_after :: scanner
  submitted :: "account list"
  completed :: nat
  console :: "console_msg list"

text \<open>\<^verbatim>\<open>ThreadPoolExecutor(max_workers)\<close> raises \<^verbatim>\<open>ValueError\<close> unless the size is
  positive. The table and the CSV file are written from \<^verbatim>\<open>self.results\<close> and change
  nothing; they are left out.\<close>

definition scan_all_accounts ::
  "scanner \<Rightarrow> accounts_page py_iter \<Rightarrow> (account \<Rightarrow> env) \<Rightarrow> nat list \<Rightarrow> int \<Rightarrow> run" where
  "scan_all_accounts self directory envs sched max_workers =
     (case get_all_active_accounts directory of (accounts, out) \<Rightarrow>
        if accounts = [] then
          \<lparr>returned = Inr None, scanner_after = self, submitted = [], completed = 0,
           console = out @ [No_accounts_found]\<rparr>
        else if max_workers \<le> 0 then
          \<lparr>returned = Inl (Exception ''max_workers must be greater than 0''),
           scanner_after = self, submitted = [], completed = 0,
           console = out @ [Starting_scan (length accounts) max_workers]\<rparr>
        else
          (case run_workers envs (completion_order sched accounts) (self, 0) of
             (self', progress) \<Rightarrow>
               \<lparr>returned = Inr (Some (results self')), scanner_after = self',
                submitted = accounts, completed = progress,
                console = out @ [Starting_scan (length accounts) max_workers]\<rparr>))"

text \<open>\<^verbatim>\<open>main\<close>, lines 303 to 308: the truth value of what \<^verbatim>\<open>scan_all_accounts\<close> returned
  (\<^verbatim>\<open>None\<close> and the empty list are false) chooses the last message.\<close>

definition truthy :: "'a list option \<Rightarrow> bool" where
  "truthy v = (case v of None \<Rightarrow> False | Some xs \<Rightarrow> xs \<noteq> [])"

definition main_message :: "RoleInfo list option \<Rightarrow> console_msg" where
  "main_message rs = (if truthy rs then Scan_completed_successfully else Scan_failed_or_no_results)"

subsection \<open>The spec's words\<close>

text \<open>The three statuses of a sentinel record, as the code spells them.\<close>

definition sentinel_status :: "string \<Rightarrow> bool" where
  "sentinel_status s = (s = ''Missing'' \<or> s = ''N/A'' \<or> s = ''Error'')"

text \<open>The records of one account in a collection.\<close>

definition records_of :: "account \<Rightarrow> RoleInfo list \<Rightarrow> RoleInfo list" where
  "records_of a rs = filter (\<lambda>r. account_id r = acc_Id a) rs"

text \<open>The roles of a listing that ends without an exception and whose pages all have
  the key \<^verbatim>\<open>Roles\<close>; \<open>None\<close> for any other listing.\<close>

fun enumerated_roles :: "roles_page py_iter \<Rightarrow> role list option" where
  "enumerated_roles StopIteration = Some []"
| "enumerated_roles (Raises e) = None"
| "enumerated_roles (Yield page rest) =
     (case page ''Roles'' of
        None \<Rightarrow> None
      | Some roles \<Rightarrow>
          (case enumerated_roles rest of None \<Rightarrow> None | Some others \<Rightarrow> Some (roles @ others)))"

text \<open>A role the loop reads without a \<^verbatim>\<open>KeyError\<close>.\<close>

definition well_formed :: "role \<Rightarrow> bool" where
  "well_formed r =
     (RoleName r \<noteq> None \<and>
      (case PermissionsBoundary r of None \<Rightarrow> True | Some pb \<Rightarrow> pb ''PermissionsBoundaryArn'' \<noteq> None))"

text \<open>A role matches the target when it has a boundary reference whose trailing segment
  is the target.\<close>

definition matches :: "string \<Rightarrow> role \<Rightarrow> bool" where
  "matches tgt r =
     (case PermissionsBoundary r of
        None \<Rightarrow> False
      | Some pb \<Rightarrow>
          (case pb ''PermissionsBoundaryArn'' of
             None \<Rightarrow> False
           | Some arn \<Rightarrow> trailing_segment arn = tgt))"

definition Exists_record :: "account \<Rightarrow> role \<Rightarrow> RoleInfo" where
  "Exists_record a r =
     \<lparr>account_id = acc_Id a, account_name = acc_Name a,
      role_name = (case RoleName r of None \<Rightarrow> [] | Some n \<Rightarrow> n),
      has_permission_boundary = ''Exists''\<rparr>"

subsection \<open>The scenarios of the spec's section 8\<close>

text \<open>The scanner \<^verbatim>\<open>main\<close> builds (lines 296 to 299).\<close>

definition main_scanner :: scanner where
  "main_scanner = init ''syf-Sandbox-permission-boundary'' ''ca-iam-cie-engineer''"

definition acct :: "string \<Rightarrow> string \<Rightarrow> account" where
  "acct i n = \<lparr>acc_Id = i, acc_Name = n, acc_Email = n @ ''@example.com''\<rparr>"

text \<open>An account that denies delegation, and one that grants it and lists the given
  pages of roles.\<close>

definition denying :: env where
  "denying =
     \<lparr>time_time = 1700000000,
      sts_assume_role = (\<lambda>arn name. Inl (Exception ''AccessDenied'')),
      iam_list_roles = (\<lambda>s. StopIteration)\<rparr>"

definition granted :: sts_response where
  "granted =
     [''Credentials'' \<mapsto>
        [''AccessKeyId'' \<mapsto> ''AK'', ''SecretAccessKey'' \<mapsto> ''SK'', ''SessionToken'' \<mapsto> ''TOK'']]"

definition listing :: "roles_page py_iter \<Rightarrow> env" where
  "listing pages =
     \<lparr>time_time = 1700000000,
      sts_assume_role = (\<lambda>arn name. Inr granted),
      iam_list_roles = (\<lambda>s. pages)\<rparr>"

definition plain_role :: "string \<Rightarrow> role" where
  "plain_role n = \<lparr>RoleName = Some n, PermissionsBoundary = None\<rparr>"

definition bounded_role :: "string \<Rightarrow> string \<Rightarrow> role" where
  "bounded_role n arn =
     \<lparr>RoleName = Some n, PermissionsBoundary = Some [''PermissionsBoundaryArn'' \<mapsto> arn]\<rparr>"

text \<open>Scenario 3: five roles, none with the target boundary. Scenario 4: two roles, one
  with it. Scenario 5: the listing raises after its first page.\<close>

definition five_roles :: "roles_page py_iter" where
  "five_roles =
     Yield [''Roles'' \<mapsto> [plain_role ''a'', plain_role ''b'',
                        bounded_role ''c'' ''arn:aws:iam::222222222222:policy/other'']]
       (Yield [''Roles'' \<mapsto> [plain_role ''d'', plain_role ''e'']] StopIteration)"

definition two_roles :: "roles_page py_iter" where
  "two_roles =
     Yield [''Roles'' \<mapsto> [plain_role ''a'',
                        bounded_role ''sandbox''
                          ''arn:aws:iam::333333333333:policy/syf-Sandbox-permission-boundary'']]
       StopIteration"

definition failing_listing :: "roles_page py_iter" where
  "failing_listing =
     Yield [''Roles'' \<mapsto> [bounded_role ''sandbox''
                          ''arn:aws:iam::444444444444:policy/syf-Sandbox-permission-boundary'']]
       (Raises (Exception
          ''An error occurred (Throttling) when calling the ListRoles operation: Rate exceeded''))"

definition four_accounts :: "account list" where
  "four_accounts =
     [acct ''111111111111'' ''one'', acct ''222222222222'' ''two'',
      acct ''333333333333'' ''three'', acct ''444444444444'' ''four'']"

definition four_envs :: "account \<Rightarrow> env" where
  "four_envs a =
     (if acc_Id a = ''111111111111'' then denying
      else if acc_Id a = ''222222222222'' then listing five_roles
      else if acc_Id a = ''333333333333'' then listing two_roles
      else listing failing_listing)"

text \<open>A directory of one page with the four accounts, all active, and a suspended
  fifth.\<close>

definition listed_account :: "string \<Rightarrow> string \<Rightarrow> string \<Rightarrow> (string \<rightharpoonup> string)" where
  "listed_account i n st =
     [''Id'' \<mapsto> i, ''Name'' \<mapsto> n, ''Email'' \<mapsto> n @ ''@example.com'', ''Status'' \<mapsto> st]"

definition four_directory :: "accounts_page py_iter" where
  "four_directory =
     Yield [''Accounts'' \<mapsto>
              [listed_account ''111111111111'' ''one'' ''ACTIVE'',
               listed_account ''222222222222'' ''two'' ''ACTIVE'',
               listed_account ''555555555555'' ''five'' ''SUSPENDED'',
               listed_account ''333333333333'' ''three'' ''ACTIVE'',
               listed_account ''444444444444'' ''four'' ''ACTIVE'']]
       StopIteration"

section \<open>Properties\<close>

subsection \<open>Strings\<close>

lemma split_not_Nil: "split s c \<noteq> []"
  by (induction s) (auto split: list.splits)

lemma split_no_sep: "c \<notin> set s \<Longrightarrow> split s c = [s]"
  by (induction s) auto

lemma length_split: "length (split s c) = Suc (length (filter (\<lambda>x. x = c) s))"
  by (induction s) (auto split: list.splits)

lemma last_split_sep: "last (split (p @ c # s) c) = last (split s c)"
proof (induction p)
  case Nil
  then show ?case by (simp add: split_not_Nil)
next
  case (Cons a p)
  show ?case
  proof (cases "a = c")
    case True
    then show ?thesis using Cons by (simp add: split_not_Nil)
  next
    case False
    obtain w ws where sp: "split (p @ c # s) c = w # ws"
      using split_not_Nil[of "p @ c # s" c] by (cases "split (p @ c # s) c") auto
    have "length (split (p @ c # s) c) \<ge> 2" by (simp add: length_split)
    then have "ws \<noteq> []" using sp by auto
    then show ?thesis using False Cons sp by simp
  qed
qed

lemma takeWhile_rev_no_sep:
  "c \<notin> set s \<Longrightarrow> rev (takeWhile (\<lambda>x. x \<noteq> c) (rev s)) = s"
proof -
  assume "c \<notin> set s"
  then have "takeWhile (\<lambda>x. x \<noteq> c) (rev s) = rev s"
    by (intro takeWhile_eq_all_conv[THEN iffD2]) auto
  then show ?thesis by (simp only: rev_rev_ident)
qed

lemma last_split: "last (split s c) = rev (takeWhile (\<lambda>x. x \<noteq> c) (rev s))"
proof (cases "c \<in> set s")
  case False
  then show ?thesis by (simp add: split_no_sep takeWhile_rev_no_sep)
next
  case True
  then obtain p q where s: "s = p @ c # q" and q: "c \<notin> set q"
    by (meson split_list_last)
  have "last (split s c) = q" using s q by (simp add: last_split_sep split_no_sep)
  moreover have "rev (takeWhile (\<lambda>x. x \<noteq> c) (rev s)) = q"
    using s q takeWhile_rev_no_sep[of c q] by (simp add: takeWhile_tail)
  ultimately show ?thesis by simp
qed

subsection \<open>The classifier\<close>

lemma getitem_last_split: "getitem_last (split s c) = Inr (last (split s c))"
  by (simp add: getitem_last_def split_not_Nil)

lemma classify_Some: "classify (Some arn) tgt = Inr (trailing_segment arn = tgt)"
  by (simp add: classify_def getitem_last_split last_split trailing_segment_def)

lemma classify_None: "classify None tgt = Inr False"
  by (simp add: classify_def)

lemma trailing_segment_path:
  "CHR ''/'' \<notin> set x \<Longrightarrow> trailing_segment (p @ CHR ''/'' # x) = x"
  using takeWhile_rev_no_sep[of "CHR ''/''" x]
  by (simp add: trailing_segment_def takeWhile_tail)

text \<open>
  Claim C2. The classifier is a function of the boundary reference and the target name
  alone. An absent reference is no match. A reference matches exactly when its trailing
  path segment, what follows its last \<^verbatim>\<open>/\<close>, equals the target character by character
  (so the comparison is case-sensitive), and the comparison never raises. In particular a
  reference \<^verbatim>\<open>p/X\<close> matches the short name \<^verbatim>\<open>X\<close>, and a reference \<^verbatim>\<open>p/Y\<close> with another
  short name \<^verbatim>\<open>Y\<close> does not.
\<close>

theorem classify_trailing_segment:
  "classify None tgt = Inr False \<and>
   classify (Some boundary_arn) tgt = Inr (trailing_segment boundary_arn = tgt) \<and>
   (CHR ''/'' \<notin> set x \<longrightarrow>
      trailing_segment (p @ CHR ''/'' # x) = x \<and>
      classify (Some (p @ CHR ''/'' # x)) x = Inr True) \<and>
   (CHR ''/'' \<notin> set y \<and> y \<noteq> x \<longrightarrow> classify (Some (p @ CHR ''/'' # y)) x = Inr False)"
  by (simp add: classify_Some classify_None trailing_segment_path)

theorem classify_trailing_segment_witness:
  "classify None ''X'' = Inr False \<and>
   classify (Some ''arn:aws:iam::123456789012:policy/X'') ''X'' = Inr True \<and>
   classify (Some ''arn:aws:iam::123456789012:policy/Y'') ''X'' = Inr False \<and>
   classify (Some ''arn:aws:iam::123456789012:policy/x'') ''X'' = Inr False \<and>
   classify (Some ''arn:aws:iam::123456789012:policy/team/X'') ''X'' = Inr True"
  using classify_trailing_segment [of "''X''" "''arn:aws:iam::123456789012:policy/x''"
      "''X''" "''arn:aws:iam::123456789012:policy''" "''Y''"]
    classify_trailing_segment [of "''X''" "''arn:aws:iam::123456789012:policy/team/X''"
      "''X''" "''arn:aws:iam::123456789012:policy/team''" "''Y''"]
  by (simp add: trailing_segment_def)

end
